theory Spec2Isabelle
  imports Complex_Main "HOL-Library.Sublist"
begin

section \<open>Python values used by \<^verbatim>\<open>scripts/multi_agent.py\<close>\<close>

text \<open>
  Strings are \<^typ>\<open>string\<close>; a \<^typ>\<open>char\<close> stands for a code point below 256.
  \<^verbatim>\<open>str.strip()\<close> removes the characters for which \<^verbatim>\<open>str.isspace\<close> holds; below 256
  these are 0x09-0x0D, 0x1C-0x20, 0x85 and 0xA0.
\<close>

definition NL :: string where
  "NL = [CHR 0x0A]"

definition isspace :: "char \<Rightarrow> bool" where
  "isspace c =
     (let n = (of_char c :: nat)
      in (9 \<le> n \<and> n \<le> 13) \<or> (28 \<le> n \<and> n \<le> 32) \<or> n = 133 \<or> n = 160)"

definition lstrip :: "string \<Rightarrow> string" where
  "lstrip s = dropWhile isspace s"

definition rstrip :: "string \<Rightarrow> string" where
  "rstrip s = rev (dropWhile isspace (rev s))"

definition strip :: "string \<Rightarrow> string" where
  "strip s = lstrip (rstrip s)"

fun join :: "string \<Rightarrow> string list \<Rightarrow> string" where
  "join sep [] = []"
| "join sep [x] = x"
| "join sep (x # y # ys) = x @ sep @ join sep (y # ys)"

text \<open>A triple-quoted literal whose every line ends with a newline.\<close>

definition unlines :: "string list \<Rightarrow> string" where
  "unlines ls = concat (map (\<lambda>l. l @ NL) ls)"

text \<open>
  The exceptions the program meets. \<open>CalledProcessError m\<close> carries \<^verbatim>\<open>str(e)\<close>, the only
  part of the exception object the program reads. \<open>OtherError\<close> stands for any exception of
  \<^verbatim>\<open>subprocess.run\<close>, \<^verbatim>\<open>open\<close> or \<^verbatim>\<open>json.dump\<close> that no handler of the program names.
\<close>

datatype exn =
    TimeoutExpired
  | CalledProcessError string
  | FileNotFoundError
  | OtherError string
  | KeyError
  | TypeError
  | SystemExit int

text \<open>The untyped result dictionaries: JSON-like values, a dict keeping insertion order.\<close>

datatype pyval =
    PyStr string
  | PyInt int
  | PyFloat real
  | PyList "pyval list"
  | PyDict "(string \<times> pyval) list"

text \<open>\<^verbatim>\<open>d[k]\<close> where the program goes on to use the value as a \<^verbatim>\<open>str\<close>.\<close>

definition subscript_str :: "pyval \<Rightarrow> string \<Rightarrow> exn + string" where
  "subscript_str d k =
     (case d of
        PyDict kvs \<Rightarrow>
          (case map_of kvs k of
             None \<Rightarrow> Inl KeyError
           | Some (PyStr s) \<Rightarrow> Inr s
           | Some _ \<Rightarrow> Inl TypeError)
      | _ \<Rightarrow> Inl TypeError)"

text \<open>\<^verbatim>\<open>d[k].append(x)\<close>, the dict updated in place.\<close>

fun append_at :: "(string \<times> pyval) list \<Rightarrow> string \<Rightarrow> pyval \<Rightarrow> exn + (string \<times> pyval) list" where
  "append_at [] k x = Inl KeyError"
| "append_at ((k', v) # kvs) k x =
     (if k' = k then
        (case v of PyList xs \<Rightarrow> Inr ((k', PyList (xs @ [x])) # kvs) | _ \<Rightarrow> Inl TypeError)
      else
        (case append_at kvs k x of Inl err \<Rightarrow> Inl err | Inr kvs' \<Rightarrow> Inr ((k', v) # kvs')))"

definition list_append_at :: "pyval \<Rightarrow> string \<Rightarrow> pyval \<Rightarrow> exn + pyval" where
  "list_append_at d k x =
     (case d of
        PyDict kvs \<Rightarrow> (case append_at kvs k x of Inl err \<Rightarrow> Inl err | Inr kvs' \<Rightarrow> Inr (PyDict kvs'))
      | _ \<Rightarrow> Inl TypeError)"

definition keys :: "pyval \<Rightarrow> string list" where
  "keys d = (case d of PyDict kvs \<Rightarrow> map fst kvs | _ \<Rightarrow> [])"

section \<open>The world outside the program\<close>

text \<open>
  Every effect of the program is an event appended to a trace. \<open>OpenWrite f\<close> is a call of
  \<^verbatim>\<open>open(f, 'w')\<close>; \<open>JsonDump f v\<close> is a \<^verbatim>\<open>json.dump\<close> that has written \<open>v\<close> to \<open>f\<close> and returned.
  \<open>CallModel\<close> is a ghost event: it records the arguments \<^verbatim>\<open>call_model\<close> was entered with,
  since the temperature is not forwarded to the subprocess and is visible nowhere else.
\<close>

datatype event =
    Print string
  | Subprocess "string list"
  | Clock
  | OpenWrite string
  | JsonDump string pyval
  | CallModel string string real "string option"

type_synonym world = "event list"

text \<open>
  The environment answers the program: what the \<open>n\<close>-th \<^verbatim>\<open>subprocess.run\<close> of the process does
  (raises, or returns the captured stdout), what the \<open>n\<close>-th \<^verbatim>\<open>time.time()\<close> reads, how a
  float prints (\<^verbatim>\<open>str\<close> and the format \<^verbatim>\<open>.1f\<close>), and whether opening a file for writing or
  dumping a value into it raises (\<open>None\<close> when it does not). Clock readings are reals and
  the elapsed time is their exact difference.
\<close>

record env =
  run_result :: "nat \<Rightarrow> string list \<Rightarrow> exn + string"
  time_now :: "nat \<Rightarrow> real"
  str_float :: "real \<Rightarrow> string"
  fmt_1f :: "real \<Rightarrow> string"
  open_result :: "string \<Rightarrow> exn option"
  dump_result :: "string \<Rightarrow> pyval \<Rightarrow> exn option"

fun runs_of :: "world \<Rightarrow> string list list" where
  "runs_of [] = []"
| "runs_of (Subprocess argv # w) = argv # runs_of w"
| "runs_of (_ # w) = runs_of w"

fun clock_reads :: "world \<Rightarrow> nat" where
  "clock_reads [] = 0"
| "clock_reads (Clock # w) = Suc (clock_reads w)"
| "clock_reads (_ # w) = clock_reads w"

fun printed :: "world \<Rightarrow> string list" where
  "printed [] = []"
| "printed (Print s # w) = s # printed w"
| "printed (_ # w) = printed w"

fun dumps_of :: "world \<Rightarrow> (string \<times> pyval) list" where
  "dumps_of [] = []"
| "dumps_of (JsonDump f v # w) = (f, v) # dumps_of w"
| "dumps_of (_ # w) = dumps_of w"

fun opens_of :: "world \<Rightarrow> string list" where
  "opens_of [] = []"
| "opens_of (OpenWrite f # w) = f # opens_of w"
| "opens_of (_ # w) = opens_of w"

fun model_calls :: "world \<Rightarrow> (string \<times> string \<times> real \<times> string option) list" where
  "model_calls [] = []"
| "model_calls (CallModel m p t s # w) = (m, p, t, s) # model_calls w"
| "model_calls (_ # w) = model_calls w"

definition py_print :: "string \<Rightarrow> world \<Rightarrow> world" where
  "py_print s w = w @ [Print s]"

definition print_lines :: "string list \<Rightarrow> world \<Rightarrow> world" where
  "print_lines ss w = foldl (\<lambda>w' s. py_print s w') w ss"

definition subprocess_run :: "env \<Rightarrow> string list \<Rightarrow> world \<Rightarrow> (exn + string) \<times> world" where
  "subprocess_run e argv w = (run_result e (length (runs_of w)) argv, w @ [Subprocess argv])"

definition time_time :: "env \<Rightarrow> world \<Rightarrow> real \<times> world" where
  "time_time e w = (time_now e (clock_reads w), w @ [Clock])"

definition open_write :: "env \<Rightarrow> string \<Rightarrow> world \<Rightarrow> (exn + unit) \<times> world" where
  "open_write e f w =
     (case open_result e f of Some err \<Rightarrow> Inl err | None \<Rightarrow> Inr (), w @ [OpenWrite f])"

definition json_dump :: "env \<Rightarrow> string \<Rightarrow> pyval \<Rightarrow> world \<Rightarrow> (exn + unit) \<times> world" where
  "json_dump e f v w =
     (case dump_result e f v of
        Some err \<Rightarrow> (Inl err, w)
      | None \<Rightarrow> (Inr (), w @ [JsonDump f v]))"

text \<open>
  The block \<^verbatim>\<open>with open(output_file, 'w') as f: json.dump(results, f, indent=2)\<close>: an exception
  of either call leaves the block.
\<close>

definition save_json :: "env \<Rightarrow> string \<Rightarrow> pyval \<Rightarrow> world \<Rightarrow> (exn + unit) \<times> world" where
  "save_json e output_file results w =
     (case open_write e output_file w of
        (Inl err, w1) \<Rightarrow> (Inl err, w1)
      | (Inr f, w1) \<Rightarrow> json_dump e output_file results w1)"

section \<open>The role registry\<close>

datatype AgentRole = PLANNING | CODING | TESTING | REVIEWING

fun AgentRole_value :: "AgentRole \<Rightarrow> string" where
  "AgentRole_value PLANNING = ''planning''"
| "AgentRole_value CODING = ''coding''"
| "AgentRole_value TESTING = ''testing''"
| "AgentRole_value REVIEWING = ''reviewing''"

record ModelConfig =
  name :: string
  role :: AgentRole
  temperature :: real
  description :: string

definition MODELS :: "(AgentRole \<times> ModelConfig) list" where
  "MODELS =
     [(PLANNING, \<lparr>name = ''qwen2.5-coder:14b-instruct-q4_K_M'', role = PLANNING,
                  temperature = 0.2, description = ''Creates detailed implementation plans''\<rparr>),
      (CODING, \<lparr>name = ''qwen2.5-coder:7b-instruct-q8_0'', role = CODING,
                temperature = 0.15, description = ''Implements code with high quality''\<rparr>),
      (TESTING, \<lparr>name = ''qwen2.5-coder:7b-instruct-q6_K'', role = TESTING,
                 temperature = 0.15, description = ''Generates tests and validates''\<rparr>)]"

text \<open>\<^verbatim>\<open>self.MODELS[r]\<close>: a missing key raises \<^verbatim>\<open>KeyError\<close>.\<close>

definition MODELS_getitem :: "AgentRole \<Rightarrow> exn + ModelConfig" where
  "MODELS_getitem r = (case map_of MODELS r of None \<Rightarrow> Inl KeyError | Some c \<Rightarrow> Inr c)"

section \<open>The orchestrator\<close>

record orchestrator =
  verbose :: bool

definition check_ollama :: "env \<Rightarrow> world \<Rightarrow> (exn + unit) \<times> world" where
  "check_ollama e w =
     (case subprocess_run e [''ollama'', ''--version''] w of
        (Inr out, w1) \<Rightarrow> (Inr (), w1)
      | (Inl (CalledProcessError m), w1) \<Rightarrow>
          (Inl (SystemExit 1), py_print ''Error: Ollama is not installed'' w1)
      | (Inl FileNotFoundError, w1) \<Rightarrow>
          (Inl (SystemExit 1), py_print ''Error: Ollama is not installed'' w1)
      | (Inl err, w1) \<Rightarrow> (Inl err, w1))"

definition MultiAgentOrchestrator :: "env \<Rightarrow> bool \<Rightarrow> world \<Rightarrow> (exn + orchestrator) \<times> world" where
  "MultiAgentOrchestrator e v w =
     (case check_ollama e w of
        (Inl err, w1) \<Rightarrow> (Inl err, w1)
      | (Inr u, w1) \<Rightarrow> (Inr \<lparr>verbose = v\<rparr>, w1))"

definition log_msg :: "orchestrator \<Rightarrow> string \<Rightarrow> world \<Rightarrow> world" where
  "log_msg self message w = (if verbose self then py_print message w else w)"

definition log_lines :: "orchestrator \<Rightarrow> string list \<Rightarrow> world \<Rightarrow> world" where
  "log_lines self ms w = foldl (\<lambda>w' m. log_msg self m w') w ms"

definition call_model ::
  "env \<Rightarrow> string \<Rightarrow> string \<Rightarrow> real \<Rightarrow> string option \<Rightarrow> world \<Rightarrow> (exn + string) \<times> world" where
  "call_model e model_name prompt temp system_prompt w =
     (let w0 = w @ [CallModel model_name prompt temp system_prompt];
          full_prompt =
            (case system_prompt of
               None \<Rightarrow> prompt
             | Some s \<Rightarrow> if s \<noteq> [] then s @ NL @ NL @ prompt else prompt)
      in case subprocess_run e [''ollama'', ''run'', model_name, full_prompt] w0 of
           (Inr out, w1) \<Rightarrow> (Inr (strip out), w1)
         | (Inl TimeoutExpired, w1) \<Rightarrow> (Inr ''Error: Model call timed out'', w1)
         | (Inl (CalledProcessError m), w1) \<Rightarrow> (Inr (''Error: '' @ m), w1)
         | (Inl err, w1) \<Rightarrow> (Inl err, w1))"

subsection \<open>Planning agent\<close>

definition planning_system_prompt :: string where
  "planning_system_prompt = unlines
     [''You are an expert software architect. Your role is to:'',
      ''1. Analyze the task requirements thoroughly'',
      ''2. Break down the task into clear, actionable steps'',
      ''3. Identify potential challenges and edge cases'',
      ''4. Suggest the best approach and design patterns'',
      ''5. Create a detailed implementation plan'',
      [],
      ''Provide a structured plan with:'',
      ''- Overview of the approach'',
      ''- Step-by-step implementation steps'',
      ''- Key considerations and potential issues'',
      ''- Suggestions for testing'']"

definition planning_prompt :: "string \<Rightarrow> string" where
  "planning_prompt task_description =
     ''Task: '' @ task_description @ NL @ NL @
     ''Please create a detailed implementation plan for this task.'' @ NL"

definition planning_agent :: "orchestrator \<Rightarrow> env \<Rightarrow> string \<Rightarrow> world \<Rightarrow> (exn + pyval) \<times> world" where
  "planning_agent self e task_description w =
     (let w1 = log_lines self
                 [NL @ replicate 60 CHR ''='', ''PLANNING AGENT - Analyzing Task'',
                  replicate 60 CHR ''=''] w
      in case MODELS_getitem PLANNING of
           Inl err \<Rightarrow> (Inl err, w1)
         | Inr model \<Rightarrow>
            (let w2 = log_lines self
                        [''Using model: '' @ name model,
                         ''Temperature: '' @ str_float e (temperature model) @ NL] w1
             in case call_model e (name model) (planning_prompt task_description)
                       (temperature model) (Some planning_system_prompt) w2 of
                  (Inl err, w3) \<Rightarrow> (Inl err, w3)
                | (Inr plan, w3) \<Rightarrow>
                   (let w4 = log_lines self
                               [''Plan created:'', replicate 60 CHR ''-'', plan,
                                replicate 60 CHR ''-''] w3;
                        (t, w5) = time_time e w4
                    in (Inr (PyDict [(''plan'', PyStr plan), (''model'', PyStr (name model)),
                                     (''timestamp'', PyFloat t)]), w5))))"

subsection \<open>Coding agent\<close>

definition coding_system_prompt :: string where
  "coding_system_prompt = unlines
     [''You are an expert software engineer. Your role is to:'',
      ''1. Implement code based on the provided plan'',
      ''2. Write clean, efficient, and well-documented code'',
      ''3. Follow best practices and coding standards'',
      ''4. Include proper error handling'',
      ''5. Add comments for complex logic'',
      ''6. Ensure code is production-ready'',
      [],
      ''Focus on code quality over speed. The code should be correct, maintainable, and robust.'']"

definition coding_prompt :: "string \<Rightarrow> string \<Rightarrow> string" where
  "coding_prompt task plan =
     ''Task: '' @ task @ NL @ NL @
     ''Implementation Plan:'' @ NL @
     plan @ NL @ NL @
     ''Please implement the code according to this plan. Provide complete, working code.'' @ NL"

definition coding_agent :: "orchestrator \<Rightarrow> env \<Rightarrow> string \<Rightarrow> string \<Rightarrow> world \<Rightarrow> (exn + pyval) \<times> world" where
  "coding_agent self e task plan w =
     (let w1 = log_lines self
                 [NL @ replicate 60 CHR ''='', ''CODING AGENT - Implementing Solution'',
                  replicate 60 CHR ''=''] w
      in case MODELS_getitem CODING of
           Inl err \<Rightarrow> (Inl err, w1)
         | Inr model \<Rightarrow>
            (let w2 = log_lines self
                        [''Using model: '' @ name model,
                         ''Temperature: '' @ str_float e (temperature model) @ NL] w1
             in case call_model e (name model) (coding_prompt task plan)
                       (temperature model) (Some coding_system_prompt) w2 of
                  (Inl err, w3) \<Rightarrow> (Inl err, w3)
                | (Inr code, w3) \<Rightarrow>
                   (let w4 = log_lines self
                               [''Code generated:'', replicate 60 CHR ''-'', code,
                                replicate 60 CHR ''-''] w3;
                        (t, w5) = time_time e w4
                    in (Inr (PyDict [(''code'', PyStr code), (''model'', PyStr (name model)),
                                     (''timestamp'', PyFloat t)]), w5))))"

subsection \<open>Testing agent\<close>

definition testing_system_prompt :: string where
  "testing_system_prompt = unlines
     [''You are an expert QA engineer. Your role is to:'',
      ''1. Review the provided code thoroughly'',
      ''2. Identify potential bugs or issues'',
      ''3. Generate comprehensive unit tests'',
      ''4. Test edge cases and error conditions'',
      ''5. Provide feedback on code quality'',
      ''6. Suggest improvements if needed'',
      [],
      ''Focus on thorough validation and quality assurance.'']"

definition testing_prompt :: "string \<Rightarrow> string \<Rightarrow> string" where
  "testing_prompt task code =
     ''Task: '' @ task @ NL @ NL @
     ''Code to test:'' @ NL @
     code @ NL @ NL @
     ''Please:'' @ NL @
     ''1. Review the code for potential issues'' @ NL @
     ''2. Generate comprehensive unit tests'' @ NL @
     ''3. Identify any bugs or improvements needed'' @ NL"

definition testing_agent :: "orchestrator \<Rightarrow> env \<Rightarrow> string \<Rightarrow> string \<Rightarrow> world \<Rightarrow> (exn + pyval) \<times> world" where
  "testing_agent self e task code w =
     (let w1 = log_lines self
                 [NL @ replicate 60 CHR ''='', ''TESTING AGENT - Validating Solution'',
                  replicate 60 CHR ''=''] w
      in case MODELS_getitem TESTING of
           Inl err \<Rightarrow> (Inl err, w1)
         | Inr model \<Rightarrow>
            (let w2 = log_lines self
                        [''Using model: '' @ name model,
                         ''Temperature: '' @ str_float e (temperature model) @ NL] w1
             in case call_model e (name model) (testing_prompt task code)
                       (temperature model) (Some testing_system_prompt) w2 of
                  (Inl err, w3) \<Rightarrow> (Inl err, w3)
                | (Inr tests, w3) \<Rightarrow>
                   (let w4 = log_lines self
                               [''Tests and feedback:'', replicate 60 CHR ''-'', tests,
                                replicate 60 CHR ''-''] w3;
                        (t, w5) = time_time e w4
                    in (Inr (PyDict [(''tests'', PyStr tests), (''model'', PyStr (name model)),
                                     (''timestamp'', PyFloat t)]), w5))))"

subsection \<open>The two workflows\<close>

definition run_three_agent_workflow :: "orchestrator \<Rightarrow> env \<Rightarrow> string \<Rightarrow> world \<Rightarrow> (exn + pyval) \<times> world" where
  "run_three_agent_workflow self e task w =
     (let w1 = print_lines
                 [NL @ replicate 70 CHR ''='', ''THREE-AGENT QUALITY WORKFLOW'',
                  ''Expected: 40-60% bug reduction through multi-agent validation'',
                  replicate 70 CHR ''=''] w;
          (start_time, w2) = time_time e w1
      in case planning_agent self e task w2 of
           (Inl err, w3) \<Rightarrow> (Inl err, w3)
         | (Inr planning_result, w3) \<Rightarrow>
      (case subscript_str planning_result ''plan'' of
           Inl err \<Rightarrow> (Inl err, w3)
         | Inr plan \<Rightarrow>
      (case coding_agent self e task plan w3 of
           (Inl err, w4) \<Rightarrow> (Inl err, w4)
         | (Inr coding_result, w4) \<Rightarrow>
      (case subscript_str coding_result ''code'' of
           Inl err \<Rightarrow> (Inl err, w4)
         | Inr code \<Rightarrow>
      (case testing_agent self e task code w4 of
           (Inl err, w5) \<Rightarrow> (Inl err, w5)
         | (Inr testing_result, w5) \<Rightarrow>
      (let (end_time, w6) = time_time e w5;
           total_time = end_time - start_time;
           results = PyDict
             [(''task'', PyStr task),
              (''planning'', planning_result),
              (''coding'', coding_result),
              (''testing'', testing_result),
              (''total_time_seconds'', PyFloat total_time),
              (''workflow'', PyStr ''three_agent_quality'')];
           w7 = print_lines
                  [NL @ replicate 70 CHR ''='', ''WORKFLOW COMPLETE'', replicate 70 CHR ''='',
                   ''Total time: '' @ fmt_1f e total_time @ '' seconds'',
                   NL @ ''Results available in the returned dictionary''] w6
       in (Inr results, w7)))))))"

definition draft_prompt :: "string \<Rightarrow> string" where
  "draft_prompt task = ''Task: '' @ task @ NL @ NL @ ''Create a working implementation:''"

definition refine_prompt :: "string \<Rightarrow> string \<Rightarrow> string" where
  "refine_prompt task draft =
     ''Task: '' @ task @ NL @ NL @ ''Initial draft:'' @ NL @ draft @ NL @ NL @
     ''Review and improve this code, fix any issues:''"

definition final_prompt :: "string \<Rightarrow> string \<Rightarrow> string" where
  "final_prompt task refined =
     ''Task: '' @ task @ NL @ NL @ ''Refined code:'' @ NL @ refined @ NL @ NL @
     ''Final review and any necessary fixes:''"

definition iteration :: "int \<Rightarrow> string \<Rightarrow> string \<Rightarrow> pyval" where
  "iteration n model out = PyDict [(''pass'', PyInt n), (''model'', PyStr model), (''output'', PyStr out)]"

definition run_iterative_refinement :: "orchestrator \<Rightarrow> env \<Rightarrow> string \<Rightarrow> world \<Rightarrow> (exn + pyval) \<times> world" where
  "run_iterative_refinement self e task w =
     (let w1 = print_lines
                 [NL @ replicate 70 CHR ''='', ''ITERATIVE REFINEMENT WORKFLOW'',
                  ''Expected: 23.79% improvement over one-shot generation'',
                  replicate 70 CHR ''=''] w;
          results = PyDict [(''task'', PyStr task), (''iterations'', PyList [])];
          w2 = log_msg self (NL @ ''Pass 1: Fast Draft (Q4)'') w1
      in case call_model e ''qwen2.5-coder:7b-instruct-q4_K_M'' (draft_prompt task) 0.2 None w2 of
           (Inl err, w3) \<Rightarrow> (Inl err, w3)
         | (Inr draft, w3) \<Rightarrow>
      (case list_append_at results ''iterations'' (iteration 1 ''7b-q4'' draft) of
           Inl err \<Rightarrow> (Inl err, w3)
         | Inr results1 \<Rightarrow>
      (let w4 = log_msg self (NL @ ''Pass 2: Quality Refinement (Q6)'') w3
       in case call_model e ''qwen2.5-coder:7b-instruct-q6_K'' (refine_prompt task draft) 0.15 None w4 of
           (Inl err, w5) \<Rightarrow> (Inl err, w5)
         | (Inr refined, w5) \<Rightarrow>
      (case list_append_at results1 ''iterations'' (iteration 2 ''7b-q6'' refined) of
           Inl err \<Rightarrow> (Inl err, w5)
         | Inr results2 \<Rightarrow>
      (let w6 = log_msg self (NL @ ''Pass 3: Deep Fix (Q8)'') w5
       in case call_model e ''qwen2.5-coder:7b-instruct-q8_0'' (final_prompt task refined) 0.15 None w6 of
           (Inl err, w7) \<Rightarrow> (Inl err, w7)
         | (Inr final, w7) \<Rightarrow>
      (case list_append_at results2 ''iterations'' (iteration 3 ''7b-q8'' final) of
           Inl err \<Rightarrow> (Inl err, w7)
         | Inr results3 \<Rightarrow> (Inr results3, w7)))))))"

subsection \<open>The command line\<close>

definition usage :: "string list" where
  "usage =
     [''Multi-Agent Orchestration System'',
      NL @ ''Usage: python multi_agent.py <workflow> <task>'',
      NL @ ''Workflows:'',
      ''  three-agent  - Three-agent quality workflow (40-60% bug reduction)'',
      ''  iterative    - Iterative refinement workflow (23.79% improvement)'',
      NL @ ''Examples:'',
      ''  python multi_agent.py three-agent '' @ [CHR 0x22] @ ''Create a binary search tree'' @ [CHR 0x22],
      ''  python multi_agent.py iterative '' @ [CHR 0x22] @ ''Implement quicksort algorithm'' @ [CHR 0x22]]"

definition main :: "env \<Rightarrow> string list \<Rightarrow> world \<Rightarrow> (exn + unit) \<times> world" where
  "main e argv w =
     (if length argv < 2 then (Inl (SystemExit 0), print_lines usage w)
      else
        (let workflow = argv ! 1;
             task = (if length argv > 2 then join '' '' (drop 2 argv)
                     else ''Create a simple calculator'')
         in case MultiAgentOrchestrator e True w of
              (Inl err, w1) \<Rightarrow> (Inl err, w1)
            | (Inr orch, w1) \<Rightarrow>
                if workflow = ''three-agent'' then
                  (case run_three_agent_workflow orch e task w1 of
                     (Inl err, w2) \<Rightarrow> (Inl err, w2)
                   | (Inr results, w2) \<Rightarrow>
                       (case save_json e ''multi_agent_results.json'' results w2 of
                          (Inl err, w3) \<Rightarrow> (Inl err, w3)
                        | (Inr u, w3) \<Rightarrow>
                            (Inr (),
                             py_print (NL @ ''Full results saved to: multi_agent_results.json'') w3)))
                else if workflow = ''iterative'' then
                  (case run_iterative_refinement orch e task w1 of
                     (Inl err, w2) \<Rightarrow> (Inl err, w2)
                   | (Inr results, w2) \<Rightarrow>
                       (case save_json e ''iterative_results.json'' results w2 of
                          (Inl err, w3) \<Rightarrow> (Inl err, w3)
                        | (Inr u, w3) \<Rightarrow>
                            (Inr (),
                             py_print (NL @ ''Full results saved to: iterative_results.json'') w3)))
                else
                  (Inl (SystemExit 1),
                   print_lines [''Unknown workflow: '' @ workflow,
                                ''Available workflows: three-agent, iterative''] w1)))"

text \<open>
  The exit status of the process: 0 when \<^verbatim>\<open>main\<close> returns, the argument of \<^verbatim>\<open>sys.exit\<close>,
  and 1 when any other exception reaches the top level.
\<close>

fun exit_status :: "(exn + unit) \<Rightarrow> int" where
  "exit_status (Inr u) = 0"
| "exit_status (Inl (SystemExit n)) = n"
| "exit_status (Inl err) = 1"

section \<open>Notions used in the statements\<close>

text \<open>
  The constants of this section are not functions of the program; they name parts of its
  behaviour so that the statements below stay readable.
\<close>

text \<open>What \<^verbatim>\<open>self.log\<close> appends to the trace for a list of messages.\<close>

definition logged :: "orchestrator \<Rightarrow> string list \<Rightarrow> world" where
  "logged self ms = (if verbose self then map Print ms else [])"

text \<open>
  The outcomes of \<^verbatim>\<open>subprocess.run\<close> that the \<^verbatim>\<open>try\<close> of \<^verbatim>\<open>call_model\<close> turns into a
  returned string: normal completion, a timeout, and a non-zero exit status.
\<close>

fun handled :: "exn + string \<Rightarrow> bool" where
  "handled (Inr out) = True"
| "handled (Inl TimeoutExpired) = True"
| "handled (Inl (CalledProcessError m)) = True"
| "handled (Inl err) = False"

text \<open>The \<^verbatim>\<open>try\<close>/\<^verbatim>\<open>except\<close> of \<^verbatim>\<open>call_model\<close> as a function of the outcome.\<close>

fun reply :: "exn + string \<Rightarrow> exn + string" where
  "reply (Inr out) = Inr (strip out)"
| "reply (Inl TimeoutExpired) = Inr ''Error: Model call timed out''"
| "reply (Inl (CalledProcessError m)) = Inr (''Error: '' @ m)"
| "reply (Inl err) = Inl err"

definition full_prompt :: "string \<Rightarrow> string option \<Rightarrow> string" where
  "full_prompt prompt system_prompt =
     (case system_prompt of
        None \<Rightarrow> prompt
      | Some s \<Rightarrow> if s \<noteq> [] then s @ NL @ NL @ prompt else prompt)"

definition ollama_run :: "string \<Rightarrow> string \<Rightarrow> string list" where
  "ollama_run m p = [''ollama'', ''run'', m, p]"

definition version_check :: "string list" where
  "version_check = [''ollama'', ''--version'']"

text \<open>The three entries of the registry.\<close>

definition planning_model :: ModelConfig where
  "planning_model = \<lparr>name = ''qwen2.5-coder:14b-instruct-q4_K_M'', role = PLANNING,
                  temperature = 0.2, description = ''Creates detailed implementation plans''\<rparr>"

definition coding_model :: ModelConfig where
  "coding_model = \<lparr>name = ''qwen2.5-coder:7b-instruct-q8_0'', role = CODING,
                temperature = 0.15, description = ''Implements code with high quality''\<rparr>"

definition testing_model :: ModelConfig where
  "testing_model = \<lparr>name = ''qwen2.5-coder:7b-instruct-q6_K'', role = TESTING,
                 temperature = 0.15, description = ''Generates tests and validates''\<rparr>"

text \<open>
  The events of one agent: up to and including its backend call, and from there to its
  return.
\<close>

definition agent_pre :: "orchestrator \<Rightarrow> env \<Rightarrow> string \<Rightarrow> ModelConfig \<Rightarrow> string \<Rightarrow> string \<Rightarrow> world" where
  "agent_pre self e title model sysp prompt =
     logged self [NL @ replicate 60 CHR ''='', title, replicate 60 CHR ''='']
     @ logged self [''Using model: '' @ name model,
                    ''Temperature: '' @ str_float e (temperature model) @ NL]
     @ [CallModel (name model) prompt (temperature model) (Some sysp),
        Subprocess (ollama_run (name model) (sysp @ NL @ NL @ prompt))]"

definition agent_post :: "orchestrator \<Rightarrow> string \<Rightarrow> string \<Rightarrow> world" where
  "agent_post self label out =
     logged self [label, replicate 60 CHR ''-'', out, replicate 60 CHR ''-''] @ [Clock]"

text \<open>The trace ends with a \<^verbatim>\<open>subprocess.run\<close>: an exception left that call uncaught.\<close>

definition ends_with_run :: "world \<Rightarrow> bool" where
  "ends_with_run w = (w \<noteq> [] \<and> (case last w of Subprocess a \<Rightarrow> True | _ \<Rightarrow> False))"

text \<open>
  The process ends with a non-zero status right after printing the two lines of the
  unknown-workflow diagnostic.
\<close>

definition unknown_workflow_exit :: "(exn + unit) \<times> world \<Rightarrow> bool" where
  "unknown_workflow_exit rw =
     (exit_status (fst rw) \<noteq> 0 \<and>
      (case rev (snd rw) of
         Print b # Print a # w \<Rightarrow>
           b = ''Available workflows: three-agent, iterative'' \<and> take 18 a = ''Unknown workflow: ''
       | _ \<Rightarrow> False))"

text \<open>The keys of a returned record (none when the call raised).\<close>

definition record_keys :: "exn + pyval \<Rightarrow> string list" where
  "record_keys r = (case r of Inl err \<Rightarrow> [] | Inr d \<Rightarrow> keys d)"

text \<open>
  A deterministic fake backend: the \<open>n\<close>-th subprocess of the process behaves as the script
  says, whatever its arguments; the clock reads 0, 1, 2, ...; every file can be written.
\<close>

definition fake_env :: "(nat \<Rightarrow> exn + string) \<Rightarrow> env" where
  "fake_env script =
     \<lparr>run_result = (\<lambda>n argv. script n), time_now = (\<lambda>n. real n),
      str_float = (\<lambda>r. ''0.0''), fmt_1f = (\<lambda>r. ''0.0''),
      open_result = (\<lambda>f. None), dump_result = (\<lambda>f v. None)\<rparr>"


text \<open>The exception, if any, that leaves the block saving \<open>v\<close> to the file \<open>f\<close>.\<close>

definition save_error :: "env \<Rightarrow> string \<Rightarrow> pyval \<Rightarrow> exn option" where
  "save_error e f v = (case open_result e f of Some err \<Rightarrow> Some err | None \<Rightarrow> dump_result e f v)"

text \<open>
  Scripts for the fake backend. In \<open>two_failures\<close> the first call times out, the second
  exits with a non-zero status and the third succeeds; in \<open>timeout_on_second\<close> only the
  second call fails.
\<close>

definition two_failures :: "nat \<Rightarrow> exn + string" where
  "two_failures n =
     (if n = 0 then Inl TimeoutExpired
      else if n = 1 then Inl (CalledProcessError ''Command returned non-zero exit status 1.'')
      else Inr ''TEST_OK'')"

definition timeout_on_second :: "nat \<Rightarrow> exn + string" where
  "timeout_on_second n = (if n = 1 then Inl TimeoutExpired else Inr ''OK'')"





definition padded_output :: "nat \<Rightarrow> exn + string" where
  "padded_output n = Inr (''  def f(): pass'' @ NL)"

definition all_ok :: "nat \<Rightarrow> exn + string" where
  "all_ok n = Inr ''OK''"

section \<open>The trace of each function\<close>

lemma runs_of_append [simp]: "runs_of (w @ w') = runs_of w @ runs_of w'"
  by (induction w rule: runs_of.induct) simp_all

lemma clock_reads_append [simp]: "clock_reads (w @ w') = clock_reads w + clock_reads w'"
  by (induction w rule: clock_reads.induct) simp_all

lemma printed_append [simp]: "printed (w @ w') = printed w @ printed w'"
  by (induction w rule: printed.induct) simp_all

lemma dumps_of_append [simp]: "dumps_of (w @ w') = dumps_of w @ dumps_of w'"
  by (induction w rule: dumps_of.induct) simp_all

lemma model_calls_append [simp]: "model_calls (w @ w') = model_calls w @ model_calls w'"
  by (induction w rule: model_calls.induct) simp_all

lemma prints_project [simp]:
  "runs_of (map Print ss) = []" "clock_reads (map Print ss) = 0" "printed (map Print ss) = ss"
  "dumps_of (map Print ss) = []" "model_calls (map Print ss) = []"
  by (induction ss) simp_all

lemma logged_project [simp]:
  "runs_of (logged self ms) = []" "clock_reads (logged self ms) = 0"
  "dumps_of (logged self ms) = []" "model_calls (logged self ms) = []"
  "printed (logged self ms) = (if verbose self then ms else [])"
  by (simp_all add: logged_def)

lemma print_lines_eq: "print_lines ss w = w @ map Print ss"
  unfolding print_lines_def by (induction ss arbitrary: w) (simp_all add: py_print_def)

lemma log_msg_eq: "log_msg self m w = w @ logged self [m]"
  by (simp add: log_msg_def logged_def py_print_def)

lemma log_lines_eq: "log_lines self ms w = w @ logged self ms"
  unfolding log_lines_def by (induction ms arbitrary: w) (simp_all add: log_msg_def logged_def py_print_def)

lemma call_model_eq:
  "call_model e m p t sp w =
     (reply (run_result e (length (runs_of w)) (ollama_run m (full_prompt p sp))),
      w @ [CallModel m p t sp, Subprocess (ollama_run m (full_prompt p sp))])"
proof -
  let ?r = "run_result e (length (runs_of w)) (ollama_run m (full_prompt p sp))"
  show ?thesis
  proof (cases ?r)
    case (Inr out)
    then show ?thesis
      by (simp add: call_model_def subprocess_run_def full_prompt_def ollama_run_def Let_def)
  next
    case (Inl err)
    then show ?thesis
      by (cases err) (simp_all add: call_model_def subprocess_run_def full_prompt_def ollama_run_def Let_def)
  qed
qed

lemma system_prompts_nonempty:
  "planning_system_prompt \<noteq> []" "coding_system_prompt \<noteq> []" "testing_system_prompt \<noteq> []"
  by (simp_all add: planning_system_prompt_def coding_system_prompt_def testing_system_prompt_def unlines_def)

lemma MODELS_lookup:
  "MODELS_getitem PLANNING = Inr \<lparr>name = ''qwen2.5-coder:14b-instruct-q4_K_M'', role = PLANNING,
                  temperature = 0.2, description = ''Creates detailed implementation plans''\<rparr>"
  "MODELS_getitem CODING = Inr \<lparr>name = ''qwen2.5-coder:7b-instruct-q8_0'', role = CODING,
                temperature = 0.15, description = ''Implements code with high quality''\<rparr>"
  "MODELS_getitem TESTING = Inr \<lparr>name = ''qwen2.5-coder:7b-instruct-q6_K'', role = TESTING,
                 temperature = 0.15, description = ''Generates tests and validates''\<rparr>"
  "MODELS_getitem REVIEWING = Inl KeyError"
  by (simp_all add: MODELS_getitem_def MODELS_def)

lemma planning_agent_eq:
  "planning_agent self e td w =
     (let pre = agent_pre self e ''PLANNING AGENT - Analyzing Task'' planning_model
                  planning_system_prompt (planning_prompt td)
      in case reply (run_result e (length (runs_of w))
                (ollama_run (name planning_model) (planning_system_prompt @ NL @ NL @ planning_prompt td))) of
           Inl err \<Rightarrow> (Inl err, w @ pre)
         | Inr plan \<Rightarrow>
             (Inr (PyDict [(''plan'', PyStr plan), (''model'', PyStr (name planning_model)),
                           (''timestamp'', PyFloat (time_now e (clock_reads w)))]),
              w @ pre @ agent_post self ''Plan created:'' plan))"
  by (simp add: planning_agent_def MODELS_lookup call_model_eq log_lines_eq full_prompt_def
      system_prompts_nonempty agent_pre_def agent_post_def time_time_def planning_model_def Let_def
      split: sum.splits)

lemma coding_agent_eq:
  "coding_agent self e task plan w =
     (let pre = agent_pre self e ''CODING AGENT - Implementing Solution'' coding_model
                  coding_system_prompt (coding_prompt task plan)
      in case reply (run_result e (length (runs_of w))
                (ollama_run (name coding_model) (coding_system_prompt @ NL @ NL @ coding_prompt task plan))) of
           Inl err \<Rightarrow> (Inl err, w @ pre)
         | Inr code \<Rightarrow>
             (Inr (PyDict [(''code'', PyStr code), (''model'', PyStr (name coding_model)),
                           (''timestamp'', PyFloat (time_now e (clock_reads w)))]),
              w @ pre @ agent_post self ''Code generated:'' code))"
  by (simp add: coding_agent_def MODELS_lookup call_model_eq log_lines_eq full_prompt_def
      system_prompts_nonempty agent_pre_def agent_post_def time_time_def coding_model_def Let_def
      split: sum.splits)

lemma testing_agent_eq:
  "testing_agent self e task code w =
     (let pre = agent_pre self e ''TESTING AGENT - Validating Solution'' testing_model
                  testing_system_prompt (testing_prompt task code)
      in case reply (run_result e (length (runs_of w))
                (ollama_run (name testing_model) (testing_system_prompt @ NL @ NL @ testing_prompt task code))) of
           Inl err \<Rightarrow> (Inl err, w @ pre)
         | Inr tests \<Rightarrow>
             (Inr (PyDict [(''tests'', PyStr tests), (''model'', PyStr (name testing_model)),
                           (''timestamp'', PyFloat (time_now e (clock_reads w)))]),
              w @ pre @ agent_post self ''Tests and feedback:'' tests))"
  by (simp add: testing_agent_def MODELS_lookup call_model_eq log_lines_eq full_prompt_def
      system_prompts_nonempty agent_pre_def agent_post_def time_time_def testing_model_def Let_def
      split: sum.splits)

lemma agent_pre_project [simp]:
  "runs_of (agent_pre self e title model sysp prompt) = [ollama_run (name model) (sysp @ NL @ NL @ prompt)]"
  "clock_reads (agent_pre self e title model sysp prompt) = 0"
  "dumps_of (agent_pre self e title model sysp prompt) = []"
  "model_calls (agent_pre self e title model sysp prompt) = [(name model, prompt, temperature model, Some sysp)]"
  by (simp_all add: agent_pre_def)

lemma agent_post_project [simp]:
  "runs_of (agent_post self label out) = []"
  "clock_reads (agent_post self label out) = 1"
  "dumps_of (agent_post self label out) = []"
  "model_calls (agent_post self label out) = []"
  by (simp_all add: agent_post_def)

lemma ends_with_run_append [simp]: "w' \<noteq> [] \<Longrightarrow> ends_with_run (w @ w') = ends_with_run w'"
  by (simp add: ends_with_run_def)

lemma ends_with_run_Cons [simp]: "w \<noteq> [] \<Longrightarrow> ends_with_run (x # w) = ends_with_run w"
  by (simp add: ends_with_run_def)

lemma ends_with_run_single [simp]:
  "ends_with_run [Subprocess a]" "\<not> ends_with_run [Print s]"
  "\<not> ends_with_run [Clock]" "\<not> ends_with_run [JsonDump f v]" "\<not> ends_with_run []"
  "\<not> ends_with_run [OpenWrite f]"
  by (simp_all add: ends_with_run_def)

lemma agent_pre_end [simp]:
  "agent_pre self e title model sysp prompt \<noteq> []"
  "ends_with_run (agent_pre self e title model sysp prompt)"
  by (simp_all add: agent_pre_def)

lemma handled_reply: "handled r \<Longrightarrow> \<exists>s. reply r = Inr s"
  by (cases r rule: handled.cases) simp_all

lemma three_agent_raises:
  assumes "run_three_agent_workflow self e task w = (Inl err, w')"
  shows "ends_with_run w' \<and> dumps_of w' = dumps_of w"
  using assms
  by (auto simp add: run_three_agent_workflow_def planning_agent_eq coding_agent_eq testing_agent_eq
      subscript_str_def print_lines_eq time_time_def Let_def split: sum.splits prod.splits)

lemma three_agent_returns:
  assumes "reply (run_result e (length (runs_of w))
             (ollama_run (name planning_model) (planning_system_prompt @ NL @ NL @ planning_prompt task))) = Inr plan"
    and "reply (run_result e (Suc (length (runs_of w)))
             (ollama_run (name coding_model) (coding_system_prompt @ NL @ NL @ coding_prompt task plan))) = Inr code"
    and "reply (run_result e (Suc (Suc (length (runs_of w))))
             (ollama_run (name testing_model) (testing_system_prompt @ NL @ NL @ testing_prompt task code))) = Inr tests"
  shows "\<exists>w'. run_three_agent_workflow self e task w =
           (Inr (PyDict
             [(''task'', PyStr task),
              (''planning'', PyDict [(''plan'', PyStr plan), (''model'', PyStr (name planning_model)),
                                     (''timestamp'', PyFloat (time_now e (Suc (clock_reads w))))]),
              (''coding'', PyDict [(''code'', PyStr code), (''model'', PyStr (name coding_model)),
                                   (''timestamp'', PyFloat (time_now e (Suc (Suc (clock_reads w)))))]),
              (''testing'', PyDict [(''tests'', PyStr tests), (''model'', PyStr (name testing_model)),
                                    (''timestamp'', PyFloat (time_now e (Suc (Suc (Suc (clock_reads w))))))]),
              (''total_time_seconds'',
                 PyFloat (time_now e (Suc (Suc (Suc (Suc (clock_reads w))))) - time_now e (clock_reads w))),
              (''workflow'', PyStr ''three_agent_quality'')]), w')
         \<and> runs_of w' = runs_of w @
              [ollama_run (name planning_model) (planning_system_prompt @ NL @ NL @ planning_prompt task),
               ollama_run (name coding_model) (coding_system_prompt @ NL @ NL @ coding_prompt task plan),
               ollama_run (name testing_model) (testing_system_prompt @ NL @ NL @ testing_prompt task code)]
         \<and> model_calls w' = model_calls w @
              [(name planning_model, planning_prompt task, temperature planning_model, Some planning_system_prompt),
               (name coding_model, coding_prompt task plan, temperature coding_model, Some coding_system_prompt),
               (name testing_model, testing_prompt task code, temperature testing_model, Some testing_system_prompt)]
         \<and> dumps_of w' = dumps_of w
         \<and> clock_reads w' = clock_reads w + 5"
  using assms
  by (simp add: run_three_agent_workflow_def planning_agent_eq coding_agent_eq testing_agent_eq
      subscript_str_def print_lines_eq time_time_def Let_def)

lemma list_append_at_iterations:
  "list_append_at (PyDict [(''task'', t), (''iterations'', PyList xs)]) ''iterations'' x =
     Inr (PyDict [(''task'', t), (''iterations'', PyList (xs @ [x]))])"
  by (simp add: list_append_at_def)

lemma iterative_raises:
  assumes "run_iterative_refinement self e task w = (Inl err, w')"
  shows "ends_with_run w' \<and> dumps_of w' = dumps_of w"
  using assms
  by (auto simp add: run_iterative_refinement_def call_model_eq list_append_at_iterations
      print_lines_eq log_msg_eq Let_def split: sum.splits prod.splits)

lemma iterative_returns:
  assumes "reply (run_result e (length (runs_of w))
             (ollama_run ''qwen2.5-coder:7b-instruct-q4_K_M'' (draft_prompt task))) = Inr draft"
    and "reply (run_result e (Suc (length (runs_of w)))
             (ollama_run ''qwen2.5-coder:7b-instruct-q6_K'' (refine_prompt task draft))) = Inr refined"
    and "reply (run_result e (Suc (Suc (length (runs_of w))))
             (ollama_run ''qwen2.5-coder:7b-instruct-q8_0'' (final_prompt task refined))) = Inr final"
  shows "\<exists>w'. run_iterative_refinement self e task w =
           (Inr (PyDict
             [(''task'', PyStr task),
              (''iterations'', PyList [iteration 1 ''7b-q4'' draft, iteration 2 ''7b-q6'' refined,
                                       iteration 3 ''7b-q8'' final])]), w')
         \<and> runs_of w' = runs_of w @
              [ollama_run ''qwen2.5-coder:7b-instruct-q4_K_M'' (draft_prompt task),
               ollama_run ''qwen2.5-coder:7b-instruct-q6_K'' (refine_prompt task draft),
               ollama_run ''qwen2.5-coder:7b-instruct-q8_0'' (final_prompt task refined)]
         \<and> model_calls w' = model_calls w @
              [(''qwen2.5-coder:7b-instruct-q4_K_M'', draft_prompt task, 0.2, None),
               (''qwen2.5-coder:7b-instruct-q6_K'', refine_prompt task draft, 0.15, None),
               (''qwen2.5-coder:7b-instruct-q8_0'', final_prompt task refined, 0.15, None)]
         \<and> dumps_of w' = dumps_of w
         \<and> clock_reads w' = clock_reads w"
  using assms
  by (simp add: run_iterative_refinement_def call_model_eq list_append_at_iterations
      print_lines_eq log_msg_eq full_prompt_def Let_def)

lemma save_json_eq:
  "save_json e f v w =
     (case save_error e f v of
        Some err \<Rightarrow> (Inl err, w @ [OpenWrite f])
      | None \<Rightarrow> (Inr (), w @ [OpenWrite f, JsonDump f v]))"
  by (simp add: save_json_def open_write_def json_dump_def save_error_def split: option.splits)

lemma save_raises_not_exit:
  "save_json e f v w = (Inl err, w') \<Longrightarrow> \<not> unknown_workflow_exit (Inl err, w')"
  by (auto simp add: save_json_eq unknown_workflow_exit_def split: option.splits)

lemma init_passes:
  assumes "run_result e (length (runs_of w)) version_check = Inr out"
  shows "MultiAgentOrchestrator e v w = (Inr \<lparr>verbose = v\<rparr>, w @ [Subprocess version_check])"
  using assms
  by (simp add: MultiAgentOrchestrator_def check_ollama_def subprocess_run_def version_check_def)


lemma init_raises:
  assumes "MultiAgentOrchestrator e v w = (Inl err, w')"
  shows "(\<exists>x. run_result e (length (runs_of w)) version_check = Inl x)
       \<and> (w' = w @ [Subprocess version_check]
          \<or> w' = w @ [Subprocess version_check, Print ''Error: Ollama is not installed''])"
  using assms
  by (auto simp add: MultiAgentOrchestrator_def check_ollama_def subprocess_run_def version_check_def
      py_print_def split: sum.splits exn.splits)

lemma ends_with_run_not_exit: "ends_with_run w \<Longrightarrow> \<not> unknown_workflow_exit (r, w)"
  by (cases w rule: rev_cases) (auto simp add: unknown_workflow_exit_def ends_with_run_def split: event.splits list.splits)

lemma init_returns:
  assumes "MultiAgentOrchestrator e v w = (Inr orch, w')"
  shows "(\<exists>out. run_result e (length (runs_of w)) version_check = Inr out)
       \<and> orch = \<lparr>verbose = v\<rparr> \<and> w' = w @ [Subprocess version_check]"
  using assms
  by (auto simp add: MultiAgentOrchestrator_def check_ollama_def subprocess_run_def version_check_def
      py_print_def split: sum.splits exn.splits)

lemma main_usage:
  assumes "length argv < 2"
  shows "main e argv w = (Inl (SystemExit 0), w @ map Print usage)"
  using assms by (simp add: main_def print_lines_eq)

lemma main_unknown:
  assumes "2 \<le> length argv" and "run_result e 0 version_check = Inr out"
    and "argv ! 1 \<noteq> ''three-agent''" and "argv ! 1 \<noteq> ''iterative''"
  shows "main e argv [] =
           (Inl (SystemExit 1),
            [Subprocess version_check, Print (''Unknown workflow: '' @ argv ! 1),
             Print ''Available workflows: three-agent, iterative''])"
  using assms init_passes [of e "[]" out True]
  by (simp add: main_def print_lines_eq Let_def)


lemma unknown_exit_only:
  assumes "unknown_workflow_exit (main e argv [])"
  shows "2 \<le> length argv \<and> (\<exists>out. run_result e 0 version_check = Inr out)
       \<and> argv ! 1 \<noteq> ''three-agent'' \<and> argv ! 1 \<noteq> ''iterative''"
proof -
  have len: "2 \<le> length argv"
  proof (rule ccontr)
    assume "\<not> 2 \<le> length argv"
    then have "main e argv [] = (Inl (SystemExit 0), [] @ map Print usage)"
      by (intro main_usage) simp
    with assms show False by (simp add: unknown_workflow_exit_def)
  qed
  obtain r w1 where init: "MultiAgentOrchestrator e True [] = (r, w1)"
    by (cases "MultiAgentOrchestrator e True []")
  show ?thesis
  proof (cases r)
    case (Inl err)
    with init have m: "main e argv [] = (Inl err, w1)"
      using len by (simp add: main_def Let_def)
    from init Inl have "w1 = [Subprocess version_check]
          \<or> w1 = [Subprocess version_check, Print ''Error: Ollama is not installed'']"
      using init_raises [of e True "[]" err w1] by simp
    with assms m show ?thesis by (auto simp add: unknown_workflow_exit_def)
  next
    case (Inr orch)
    with init have ok: "\<exists>out. run_result e 0 version_check = Inr out"
      and w1: "w1 = [Subprocess version_check]"
      using init_returns [of e True "[]" orch w1] by simp_all
    define task where "task = (if length argv > 2 then join '' '' (drop 2 argv)
                     else ''Create a simple calculator'')"
    have three: "argv ! 1 \<noteq> ''three-agent''"
    proof
      assume wf: "argv ! 1 = ''three-agent''"
      obtain r2 w2 where run: "run_three_agent_workflow orch e task w1 = (r2, w2)"
        by (cases "run_three_agent_workflow orch e task w1")
      show False
      proof (cases r2)
        case (Inl err)
        with run have "ends_with_run w2" using three_agent_raises by blast
        moreover have "main e argv [] = (Inl err, w2)"
          using len init Inr wf run Inl by (simp add: main_def Let_def task_def)
        ultimately show False using assms ends_with_run_not_exit by metis
      next
        case r: (Inr results)
        obtain r3 w3 where sv: "save_json e ''multi_agent_results.json'' results w2 = (r3, w3)"
          by (cases "save_json e ''multi_agent_results.json'' results w2")
        show False
        proof (cases r3)
          case (Inl err)
          have "main e argv [] = (Inl err, w3)"
            using len init Inr wf run r sv Inl by (simp add: main_def Let_def task_def)
          with assms save_raises_not_exit sv Inl show False by metis
        next
          case u: (Inr u)
          have "fst (main e argv []) = Inr ()"
            using len init Inr wf run r sv u by (simp add: main_def Let_def task_def)
          with assms show False by (simp add: unknown_workflow_exit_def)
        qed
      qed
    qed
    have iter: "argv ! 1 \<noteq> ''iterative''"
    proof
      assume wf: "argv ! 1 = ''iterative''"
      obtain r2 w2 where run: "run_iterative_refinement orch e task w1 = (r2, w2)"
        by (cases "run_iterative_refinement orch e task w1")
      show False
      proof (cases r2)
        case (Inl err)
        with run have "ends_with_run w2" using iterative_raises by blast
        moreover have "main e argv [] = (Inl err, w2)"
          using len init Inr wf run Inl by (simp add: main_def Let_def task_def)
        ultimately show False using assms ends_with_run_not_exit by metis
      next
        case r: (Inr results)
        obtain r3 w3 where sv: "save_json e ''iterative_results.json'' results w2 = (r3, w3)"
          by (cases "save_json e ''iterative_results.json'' results w2")
        show False
        proof (cases r3)
          case (Inl err)
          have "main e argv [] = (Inl err, w3)"
            using len init Inr wf run r sv Inl by (simp add: main_def Let_def task_def)
          with assms save_raises_not_exit sv Inl show False by metis
        next
          case u: (Inr u)
          have "fst (main e argv []) = Inr ()"
            using len init Inr wf run r sv u by (simp add: main_def Let_def task_def)
          with assms show False by (simp add: unknown_workflow_exit_def)
        qed
      qed
    qed
    from len ok three iter show ?thesis by simp
  qed
qed

lemma handled_replies:
  assumes "\<forall>n a. handled (run_result e n a)"
  shows "\<exists>s. reply (run_result e n a) = Inr s"
  using assms handled_reply by blast




lemma last_dropWhile: "dropWhile P xs \<noteq> [] \<Longrightarrow> last (dropWhile P xs) = last xs"
  by (induction xs) (auto split: if_splits)

lemma strip_decompose:
  "out = takeWhile isspace (rstrip out) @ strip out @ rev (takeWhile isspace (rev out))"
proof -
  have r: "out = rstrip out @ rev (takeWhile isspace (rev out))"
    unfolding rstrip_def by (metis rev_append rev_rev_ident takeWhile_dropWhile_id)
  have l: "rstrip out = takeWhile isspace (rstrip out) @ strip out"
    by (simp add: strip_def lstrip_def)
  from r l show ?thesis by (metis append.assoc)
qed

lemma strip_ends:
  assumes "strip out \<noteq> []"
  shows "\<not> isspace (hd (strip out))" and "\<not> isspace (last (strip out))"
proof -
  show "\<not> isspace (hd (strip out))"
    using assms unfolding strip_def lstrip_def by (rule hd_dropWhile)
  have ne: "dropWhile isspace (rev out) \<noteq> []"
  proof
    assume e: "dropWhile isspace (rev out) = []"
    have "strip out = []" unfolding strip_def lstrip_def rstrip_def e by simp
    with assms show False by simp
  qed
  have "last (strip out) = last (rstrip out)"
    using assms unfolding strip_def lstrip_def by (rule last_dropWhile)
  also have "\<dots> = hd (dropWhile isspace (rev out))"
    using ne by (simp add: rstrip_def last_rev)
  finally show "\<not> isspace (last (strip out))"
    using hd_dropWhile [OF ne] by simp
qed


section \<open>Properties of the orchestrator\<close>

text \<open>
  C10. Invoked with no arguments at all, \<^verbatim>\<open>main\<close> prints the eight lines of the usage
  message, does nothing else, and exits with status 0: it starts no subprocess, opens no file
  and writes no record. With a workflow argument that is neither \<^verbatim>\<open>three-agent\<close> nor
  \<^verbatim>\<open>iterative\<close>, and the backend check passed, it prints the two lines of the unknown-workflow
  diagnostic and exits with status 1; and the process ends with that diagnostic and a
  non-zero status in no other case.
\<close>

theorem main_no_arguments_exits_zero:
  "(length argv < 2 \<longrightarrow>
      fst (main e argv []) = Inl (SystemExit 0)
      \<and> snd (main e argv []) = map Print
          [''Multi-Agent Orchestration System'',
           NL @ ''Usage: python multi_agent.py <workflow> <task>'',
           NL @ ''Workflows:'',
           ''  three-agent  - Three-agent quality workflow (40-60% bug reduction)'',
           ''  iterative    - Iterative refinement workflow (23.79% improvement)'',
           NL @ ''Examples:'',
           ''  python multi_agent.py three-agent '' @ [CHR 0x22]
             @ ''Create a binary search tree'' @ [CHR 0x22],
           ''  python multi_agent.py iterative '' @ [CHR 0x22]
             @ ''Implement quicksort algorithm'' @ [CHR 0x22]]
      \<and> exit_status (fst (main e argv [])) = 0
      \<and> runs_of (snd (main e argv [])) = []
      \<and> opens_of (snd (main e argv [])) = []
      \<and> dumps_of (snd (main e argv [])) = [])
   \<and> (2 \<le> length argv \<and> (\<exists>out. run_result e 0 version_check = Inr out)
        \<and> argv ! 1 \<noteq> ''three-agent'' \<and> argv ! 1 \<noteq> ''iterative'' \<longrightarrow>
      main e argv [] =
        (Inl (SystemExit 1),
         [Subprocess version_check, Print (''Unknown workflow: '' @ argv ! 1),
          Print ''Available workflows: three-agent, iterative''])
      \<and> exit_status (fst (main e argv [])) = 1)
   \<and> (unknown_workflow_exit (main e argv []) \<longleftrightarrow>
        2 \<le> length argv \<and> (\<exists>out. run_result e 0 version_check = Inr out)
        \<and> argv ! 1 \<noteq> ''three-agent'' \<and> argv ! 1 \<noteq> ''iterative'')"
proof -
  have a: "main e argv [] = (Inl (SystemExit 0), map Print
          [''Multi-Agent Orchestration System'',
           NL @ ''Usage: python multi_agent.py <workflow> <task>'',
           NL @ ''Workflows:'',
           ''  three-agent  - Three-agent quality workflow (40-60% bug reduction)'',
           ''  iterative    - Iterative refinement workflow (23.79% improvement)'',
           NL @ ''Examples:'',
           ''  python multi_agent.py three-agent '' @ [CHR 0x22]
             @ ''Create a binary search tree'' @ [CHR 0x22],
           ''  python multi_agent.py iterative '' @ [CHR 0x22]
             @ ''Implement quicksort algorithm'' @ [CHR 0x22]])"
    if "length argv < 2"
    using main_usage [OF that, of e "[]"] by (simp add: usage_def)
  have c: "main e argv [] =
        (Inl (SystemExit 1),
         [Subprocess version_check, Print (''Unknown workflow: '' @ argv ! 1),
          Print ''Available workflows: three-agent, iterative''])"
    if "2 \<le> length argv" "run_result e 0 version_check = Inr out"
       "argv ! 1 \<noteq> ''three-agent''" "argv ! 1 \<noteq> ''iterative''" for out
    using main_unknown [OF that] .
  have b: "unknown_workflow_exit (main e argv [])"
    if "2 \<le> length argv" "run_result e 0 version_check = Inr out"
       "argv ! 1 \<noteq> ''three-agent''" "argv ! 1 \<noteq> ''iterative''" for out
    using c [OF that] by (simp add: unknown_workflow_exit_def)
  have 1: "length argv < 2 \<longrightarrow>
      fst (main e argv []) = Inl (SystemExit 0)
      \<and> snd (main e argv []) = map Print
          [''Multi-Agent Orchestration System'',
           NL @ ''Usage: python multi_agent.py <workflow> <task>'',
           NL @ ''Workflows:'',
           ''  three-agent  - Three-agent quality workflow (40-60% bug reduction)'',
           ''  iterative    - Iterative refinement workflow (23.79% improvement)'',
           NL @ ''Examples:'',
           ''  python multi_agent.py three-agent '' @ [CHR 0x22]
             @ ''Create a binary search tree'' @ [CHR 0x22],
           ''  python multi_agent.py iterative '' @ [CHR 0x22]
             @ ''Implement quicksort algorithm'' @ [CHR 0x22]]
      \<and> exit_status (fst (main e argv [])) = 0
      \<and> runs_of (snd (main e argv [])) = []
      \<and> opens_of (snd (main e argv [])) = []
      \<and> dumps_of (snd (main e argv [])) = []"
    using a by (simp add: NL_def)
  have 2: "2 \<le> length argv \<and> (\<exists>out. run_result e 0 version_check = Inr out)
        \<and> argv ! 1 \<noteq> ''three-agent'' \<and> argv ! 1 \<noteq> ''iterative'' \<longrightarrow>
      main e argv [] =
        (Inl (SystemExit 1),
         [Subprocess version_check, Print (''Unknown workflow: '' @ argv ! 1),
          Print ''Available workflows: three-agent, iterative''])
      \<and> exit_status (fst (main e argv [])) = 1"
    using c by auto
  have 3: "unknown_workflow_exit (main e argv []) \<longleftrightarrow>
        2 \<le> length argv \<and> (\<exists>out. run_result e 0 version_check = Inr out)
        \<and> argv ! 1 \<noteq> ''three-agent'' \<and> argv ! 1 \<noteq> ''iterative''"
    using b unknown_exit_only [of e argv] by auto
  from 1 2 3 show ?thesis by (intro conjI)
qed

theorem main_no_arguments_exits_zero_witness:
  "length [''multi_agent.py''] < 2
   \<and> exit_status (fst (main (fake_env all_ok) [''multi_agent.py''] [])) = 0
   \<and> printed (snd (main (fake_env all_ok) [''multi_agent.py''] [])) =
          [''Multi-Agent Orchestration System'',
           NL @ ''Usage: python multi_agent.py <workflow> <task>'',
           NL @ ''Workflows:'',
           ''  three-agent  - Three-agent quality workflow (40-60% bug reduction)'',
           ''  iterative    - Iterative refinement workflow (23.79% improvement)'',
           NL @ ''Examples:'',
           ''  python multi_agent.py three-agent '' @ [CHR 0x22]
             @ ''Create a binary search tree'' @ [CHR 0x22],
           ''  python multi_agent.py iterative '' @ [CHR 0x22]
             @ ''Implement quicksort algorithm'' @ [CHR 0x22]]
   \<and> runs_of (snd (main (fake_env all_ok) [''multi_agent.py''] [])) = []
   \<and> opens_of (snd (main (fake_env all_ok) [''multi_agent.py''] [])) = []
   \<and> dumps_of (snd (main (fake_env all_ok) [''multi_agent.py''] [])) = []
   \<and> 2 \<le> length [''multi_agent.py'', ''bogus'']
   \<and> run_result (fake_env all_ok) 0 version_check = Inr ''OK''
   \<and> printed (snd (main (fake_env all_ok) [''multi_agent.py'', ''bogus''] [])) =
          [''Unknown workflow: bogus'', ''Available workflows: three-agent, iterative'']
   \<and> exit_status (fst (main (fake_env all_ok) [''multi_agent.py'', ''bogus''] [])) = 1
   \<and> unknown_workflow_exit (main (fake_env all_ok) [''multi_agent.py'', ''bogus''] [])"
proof -
  have ok: "run_result (fake_env all_ok) 0 version_check = Inr ''OK''"
    by (simp add: fake_env_def all_ok_def)
  from main_no_arguments_exits_zero [of "[''multi_agent.py'']" "fake_env all_ok"]
    main_no_arguments_exits_zero [of "[''multi_agent.py'', ''bogus'']" "fake_env all_ok"]
  show ?thesis using ok by (simp add: unknown_workflow_exit_def)
qed

text \<open>
  C1. Whenever every backend call of the run returns, times out or exits with a non-zero
  status, the three-agent workflow returns a record whose entries are, in this order, the
  task, the planning result, the coding result, the testing result, the total time and the
  workflow name; and it has made exactly three backend calls, to the planning, the coding and
  the testing model in this order. A failure of an earlier stage changes neither the number
  nor the order of the stages.
\<close>

theorem three_agent_run_has_three_stages:
  assumes "\<forall>n a. handled (run_result e n a)"
  shows "\<exists>plan code tests t1 t2 t3 total p1 p2 p3 w'.
     run_three_agent_workflow self e task w =
       (Inr (PyDict
          [(''task'', PyStr task),
           (''planning'', PyDict [(''plan'', PyStr plan),
                                  (''model'', PyStr ''qwen2.5-coder:14b-instruct-q4_K_M''),
                                  (''timestamp'', PyFloat t1)]),
           (''coding'', PyDict [(''code'', PyStr code),
                                (''model'', PyStr ''qwen2.5-coder:7b-instruct-q8_0''),
                                (''timestamp'', PyFloat t2)]),
           (''testing'', PyDict [(''tests'', PyStr tests),
                                 (''model'', PyStr ''qwen2.5-coder:7b-instruct-q6_K''),
                                 (''timestamp'', PyFloat t3)]),
           (''total_time_seconds'', PyFloat total),
           (''workflow'', PyStr ''three_agent_quality'')]), w')
     \<and> runs_of w' = runs_of w @
          [ollama_run ''qwen2.5-coder:14b-instruct-q4_K_M'' p1,
           ollama_run ''qwen2.5-coder:7b-instruct-q8_0'' p2,
           ollama_run ''qwen2.5-coder:7b-instruct-q6_K'' p3]"
proof -
  obtain plan where 1: "reply (run_result e (length (runs_of w))
      (ollama_run (name planning_model) (planning_system_prompt @ NL @ NL @ planning_prompt task))) = Inr plan"
    using handled_replies [OF assms] by blast
  obtain code where 2: "reply (run_result e (Suc (length (runs_of w)))
      (ollama_run (name coding_model) (coding_system_prompt @ NL @ NL @ coding_prompt task plan))) = Inr code"
    using handled_replies [OF assms] by blast
  obtain tests where 3: "reply (run_result e (Suc (Suc (length (runs_of w))))
      (ollama_run (name testing_model) (testing_system_prompt @ NL @ NL @ testing_prompt task code))) = Inr tests"
    using handled_replies [OF assms] by blast
  from three_agent_returns [OF 1 2 3, of self] show ?thesis
    unfolding planning_model_def coding_model_def testing_model_def
    by (simp del: ex_simps) blast
qed

theorem three_agent_run_has_three_stages_witness:
  "(\<forall>n a. handled (run_result (fake_env two_failures) n a))
   \<and> record_keys (fst (run_three_agent_workflow \<lparr>verbose = True\<rparr> (fake_env two_failures)
        ''Create a binary search tree'' []))
       = [''task'', ''planning'', ''coding'', ''testing'', ''total_time_seconds'', ''workflow'']
   \<and> map (take 3) (runs_of (snd (run_three_agent_workflow \<lparr>verbose = True\<rparr> (fake_env two_failures)
        ''Create a binary search tree'' [])))
       = [[''ollama'', ''run'', ''qwen2.5-coder:14b-instruct-q4_K_M''],
          [''ollama'', ''run'', ''qwen2.5-coder:7b-instruct-q8_0''],
          [''ollama'', ''run'', ''qwen2.5-coder:7b-instruct-q6_K'']]"
proof -
  have h: "\<forall>n a. handled (run_result (fake_env two_failures) n a)"
    by (simp add: fake_env_def two_failures_def)
  from three_agent_run_has_three_stages
    [OF h, of "\<lparr>verbose = True\<rparr>" "''Create a binary search tree''" "[]"]
  show ?thesis using h by (auto simp add: record_keys_def keys_def ollama_run_def)
qed



text \<open>
  C7. Whenever every backend call returns, times out or exits with a non-zero status, the
  iterative workflow enters \<^verbatim>\<open>call_model\<close> exactly three times, in this order: with the q4 model
  and temperature 0.2, with the q6 model and temperature 0.15, with the q8 model and
  temperature 0.15; it makes the three corresponding backend calls and returns a record with
  the three passes 1, 2, 3. No outcome of a pass is inspected: a failed pass is followed by
  the next one all the same.
\<close>

theorem iterative_run_has_three_fixed_passes:
  assumes "\<forall>n a. handled (run_result e n a)"
  shows "\<exists>draft refined final w'.
     run_iterative_refinement self e task w =
       (Inr (PyDict
          [(''task'', PyStr task),
           (''iterations'',
              PyList [PyDict [(''pass'', PyInt 1), (''model'', PyStr ''7b-q4''), (''output'', PyStr draft)],
                      PyDict [(''pass'', PyInt 2), (''model'', PyStr ''7b-q6''), (''output'', PyStr refined)],
                      PyDict [(''pass'', PyInt 3), (''model'', PyStr ''7b-q8''), (''output'', PyStr final)]])]),
        w')
     \<and> model_calls w' = model_calls w @
          [(''qwen2.5-coder:7b-instruct-q4_K_M'', draft_prompt task, 0.2, None),
           (''qwen2.5-coder:7b-instruct-q6_K'', refine_prompt task draft, 0.15, None),
           (''qwen2.5-coder:7b-instruct-q8_0'', final_prompt task refined, 0.15, None)]
     \<and> runs_of w' = runs_of w @
          [ollama_run ''qwen2.5-coder:7b-instruct-q4_K_M'' (draft_prompt task),
           ollama_run ''qwen2.5-coder:7b-instruct-q6_K'' (refine_prompt task draft),
           ollama_run ''qwen2.5-coder:7b-instruct-q8_0'' (final_prompt task refined)]"
proof -
  obtain draft where 1: "reply (run_result e (length (runs_of w))
             (ollama_run ''qwen2.5-coder:7b-instruct-q4_K_M'' (draft_prompt task))) = Inr draft"
    using handled_replies [OF assms] by blast
  obtain refined where 2: "reply (run_result e (Suc (length (runs_of w)))
             (ollama_run ''qwen2.5-coder:7b-instruct-q6_K'' (refine_prompt task draft))) = Inr refined"
    using handled_replies [OF assms] by blast
  obtain final where 3: "reply (run_result e (Suc (Suc (length (runs_of w))))
             (ollama_run ''qwen2.5-coder:7b-instruct-q8_0'' (final_prompt task refined))) = Inr final"
    using handled_replies [OF assms] by blast
  from iterative_returns [OF 1 2 3, of self] show ?thesis
    unfolding iteration_def by blast
qed

theorem iterative_run_has_three_fixed_passes_witness:
  "(\<forall>n a. handled (run_result (fake_env timeout_on_second) n a))
   \<and> map (\<lambda>(m, p, t, s). (m, t)) (model_calls (snd (run_iterative_refinement \<lparr>verbose = True\<rparr>
        (fake_env timeout_on_second) ''Implement quicksort algorithm'' [])))
       = [(''qwen2.5-coder:7b-instruct-q4_K_M'', 0.2),
          (''qwen2.5-coder:7b-instruct-q6_K'', 0.15),
          (''qwen2.5-coder:7b-instruct-q8_0'', 0.15)]
   \<and> length (runs_of (snd (run_iterative_refinement \<lparr>verbose = True\<rparr>
        (fake_env timeout_on_second) ''Implement quicksort algorithm'' []))) = 3
   \<and> record_keys (fst (run_iterative_refinement \<lparr>verbose = True\<rparr>
        (fake_env timeout_on_second) ''Implement quicksort algorithm'' [])) = [''task'', ''iterations'']"
proof -
  have h: "\<forall>n a. handled (run_result (fake_env timeout_on_second) n a)"
    by (simp add: fake_env_def timeout_on_second_def)
  from iterative_run_has_three_fixed_passes
    [OF h, of "\<lparr>verbose = True\<rparr>" "''Implement quicksort algorithm''" "[]"]
  show ?thesis using h by (elim conjE exE) (simp add: record_keys_def keys_def)
qed






text \<open>
  C3, counterexample. The output \<^verbatim>\<open>"  def f(): pass\n"\<close> of a successful call comes back
  without its leading spaces and its final newline.
\<close>

theorem call_model_raw_output_counterexample:
  "run_result (fake_env padded_output) 0 (ollama_run ''m'' ''p'') = Inr (''  def f(): pass'' @ NL)
   \<and> fst (call_model (fake_env padded_output) ''m'' ''p'' 0.15 None []) = Inr ''def f(): pass''
   \<and> fst (call_model (fake_env padded_output) ''m'' ''p'' 0.15 None [])
       \<noteq> Inr (''  def f(): pass'' @ NL)"
  by (simp add: call_model_eq fake_env_def padded_output_def full_prompt_def
      strip_def lstrip_def rstrip_def isspace_def NL_def)

text \<open>
  C3, amended. For every successful backend invocation \<^verbatim>\<open>call_model\<close> returns the output with
  its leading and trailing white space removed and otherwise unchanged: the output is the
  returned text between two runs of white space, and the returned text, unless empty, neither
  starts nor ends with white space.
\<close>

theorem call_model_returns_stripped_output:
  "run_result e (length (runs_of w)) (ollama_run m (full_prompt p sp)) = Inr out
   \<longrightarrow> fst (call_model e m p t sp w) = Inr (strip out)
     \<and> (\<exists>pre post. out = pre @ strip out @ post \<and> list_all isspace pre \<and> list_all isspace post)
     \<and> (strip out \<noteq> [] \<longrightarrow> \<not> isspace (hd (strip out)) \<and> \<not> isspace (last (strip out)))"
proof (intro impI conjI)
  assume "run_result e (length (runs_of w)) (ollama_run m (full_prompt p sp)) = Inr out"
  then show "fst (call_model e m p t sp w) = Inr (strip out)"
    by (simp add: call_model_eq)
next
  have "list_all isspace (takeWhile isspace (rstrip out))"
    and "list_all isspace (rev (takeWhile isspace (rev out)))"
    by (auto simp add: list_all_iff dest: set_takeWhileD)
  with strip_decompose [of out]
  show "\<exists>pre post. out = pre @ strip out @ post \<and> list_all isspace pre \<and> list_all isspace post"
    by blast
next
  assume "strip out \<noteq> []"
  then show "\<not> isspace (hd (strip out))" by (rule strip_ends)
next
  assume "strip out \<noteq> []"
  then show "\<not> isspace (last (strip out))" by (rule strip_ends)
qed

theorem call_model_returns_stripped_output_witness:
  "run_result (fake_env padded_output) (length (runs_of []))
       (ollama_run ''m'' (full_prompt ''p'' None)) = Inr (''  def f(): pass'' @ NL)
   \<and> fst (call_model (fake_env padded_output) ''m'' ''p'' 0.15 None []) = Inr ''def f(): pass''
   \<and> strip (''  def f(): pass'' @ NL) = ''def f(): pass''"
proof -
  have a: "run_result (fake_env padded_output) (length (runs_of []))
       (ollama_run ''m'' (full_prompt ''p'' None)) = Inr (''  def f(): pass'' @ NL)"
    by (simp add: fake_env_def padded_output_def)
  have s: "strip (''  def f(): pass'' @ NL) = ''def f(): pass''"
    by (simp add: strip_def lstrip_def rstrip_def isspace_def NL_def)
  from call_model_returns_stripped_output
         [where e = "fake_env padded_output" and w = "[]" and m = "''m''" and p = "''p''"
            and sp = None and out = "''  def f(): pass'' @ NL" and t = "0.15"]
  show ?thesis using a s by simp
qed




text \<open>
  C5, counterexample. The record of an iterative run has the two keys \<^verbatim>\<open>task\<close> and
  \<^verbatim>\<open>iterations\<close>: it holds neither the workflow kind nor an elapsed time, and the run never
  reads the clock.
\<close>

theorem iterative_record_fields_counterexample:
  "record_keys (fst (run_iterative_refinement \<lparr>verbose = True\<rparr> (fake_env all_ok)
        ''Implement quicksort algorithm'' [])) = [''task'', ''iterations'']
   \<and> ''workflow'' \<notin> set (record_keys (fst (run_iterative_refinement \<lparr>verbose = True\<rparr>
        (fake_env all_ok) ''Implement quicksort algorithm'' [])))
   \<and> ''total_time_seconds'' \<notin> set (record_keys (fst (run_iterative_refinement \<lparr>verbose = True\<rparr>
        (fake_env all_ok) ''Implement quicksort algorithm'' [])))
   \<and> clock_reads (snd (run_iterative_refinement \<lparr>verbose = True\<rparr> (fake_env all_ok)
        ''Implement quicksort algorithm'' [])) = 0"
proof -
  have r: "reply (run_result (fake_env all_ok) n a) = Inr ''OK''" for n a
    by (simp add: fake_env_def all_ok_def strip_def lstrip_def rstrip_def isspace_def)
  from iterative_returns [OF r r r, where w = "[]" and task = "''Implement quicksort algorithm''"
         and self = "\<lparr>verbose = True\<rparr>"]
  show ?thesis by (auto simp add: record_keys_def keys_def)
qed

text \<open>
  C5, amended. Whenever every backend call returns, times out or exits with a non-zero
  status: the record of a three-agent run contains the task description, the three stage
  results in order, the elapsed time between the first and the last clock reading of the run,
  and the workflow kind \<^verbatim>\<open>three_agent_quality\<close>; the record of an iterative run contains the
  task description and the ordered list of its three passes, and nothing else.
\<close>

theorem run_record_fields:
  assumes "\<forall>n a. handled (run_result e n a)"
  shows "(\<exists>planning_result coding_result testing_result w'.
      run_three_agent_workflow self e task w =
        (Inr (PyDict
           [(''task'', PyStr task), (''planning'', planning_result), (''coding'', coding_result),
            (''testing'', testing_result),
            (''total_time_seconds'',
               PyFloat (time_now e (clock_reads w + 4) - time_now e (clock_reads w))),
            (''workflow'', PyStr ''three_agent_quality'')]), w')
      \<and> clock_reads w' = clock_reads w + 5)
   \<and> (\<exists>pass1 pass2 pass3 w'.
      run_iterative_refinement self e task w =
        (Inr (PyDict [(''task'', PyStr task), (''iterations'', PyList [pass1, pass2, pass3])]), w')
      \<and> clock_reads w' = clock_reads w)"
proof (rule conjI)
  obtain plan where 1: "reply (run_result e (length (runs_of w))
      (ollama_run (name planning_model) (planning_system_prompt @ NL @ NL @ planning_prompt task))) = Inr plan"
    using handled_replies [OF assms] by blast
  obtain code where 2: "reply (run_result e (Suc (length (runs_of w)))
      (ollama_run (name coding_model) (coding_system_prompt @ NL @ NL @ coding_prompt task plan))) = Inr code"
    using handled_replies [OF assms] by blast
  obtain tests where 3: "reply (run_result e (Suc (Suc (length (runs_of w))))
      (ollama_run (name testing_model) (testing_system_prompt @ NL @ NL @ testing_prompt task code))) = Inr tests"
    using handled_replies [OF assms] by blast
  have n: "clock_reads w + 4 = Suc (Suc (Suc (Suc (clock_reads w))))" by simp
  from three_agent_returns [OF 1 2 3, of self]
  show "\<exists>planning_result coding_result testing_result w'.
      run_three_agent_workflow self e task w =
        (Inr (PyDict
           [(''task'', PyStr task), (''planning'', planning_result), (''coding'', coding_result),
            (''testing'', testing_result),
            (''total_time_seconds'',
               PyFloat (time_now e (clock_reads w + 4) - time_now e (clock_reads w))),
            (''workflow'', PyStr ''three_agent_quality'')]), w')
      \<and> clock_reads w' = clock_reads w + 5"
    unfolding n by blast
next
  obtain draft where 4: "reply (run_result e (length (runs_of w))
             (ollama_run ''qwen2.5-coder:7b-instruct-q4_K_M'' (draft_prompt task))) = Inr draft"
    using handled_replies [OF assms] by blast
  obtain refined where 5: "reply (run_result e (Suc (length (runs_of w)))
             (ollama_run ''qwen2.5-coder:7b-instruct-q6_K'' (refine_prompt task draft))) = Inr refined"
    using handled_replies [OF assms] by blast
  obtain final where 6: "reply (run_result e (Suc (Suc (length (runs_of w))))
             (ollama_run ''qwen2.5-coder:7b-instruct-q8_0'' (final_prompt task refined))) = Inr final"
    using handled_replies [OF assms] by blast
  from iterative_returns [OF 4 5 6, of self]
  show "\<exists>pass1 pass2 pass3 w'.
      run_iterative_refinement self e task w =
        (Inr (PyDict [(''task'', PyStr task), (''iterations'', PyList [pass1, pass2, pass3])]), w')
      \<and> clock_reads w' = clock_reads w"
    by blast
qed

theorem run_record_fields_witness:
  "(\<forall>n a. handled (run_result (fake_env timeout_on_second) n a))
   \<and> record_keys (fst (run_three_agent_workflow \<lparr>verbose = True\<rparr> (fake_env timeout_on_second)
        ''Create a stack'' []))
       = [''task'', ''planning'', ''coding'', ''testing'', ''total_time_seconds'', ''workflow'']
   \<and> clock_reads (snd (run_three_agent_workflow \<lparr>verbose = True\<rparr> (fake_env timeout_on_second)
        ''Create a stack'' [])) = 5
   \<and> record_keys (fst (run_iterative_refinement \<lparr>verbose = True\<rparr> (fake_env timeout_on_second)
        ''Create a stack'' [])) = [''task'', ''iterations'']
   \<and> clock_reads (snd (run_iterative_refinement \<lparr>verbose = True\<rparr> (fake_env timeout_on_second)
        ''Create a stack'' [])) = 0"
proof -
  have h: "\<forall>n a. handled (run_result (fake_env timeout_on_second) n a)"
    by (simp add: fake_env_def timeout_on_second_def)
  from run_record_fields [OF h, of "\<lparr>verbose = True\<rparr>" "''Create a stack''" "[]"]
  show ?thesis using h by (auto simp add: record_keys_def keys_def)
qed

text \<open>
  C9, counterexample. \<open>REVIEWING\<close> belongs to the role enumeration, and its lookup in the
  registry raises \<^verbatim>\<open>KeyError\<close> instead of returning a configuration.
\<close>

theorem registry_lookup_counterexample:
  "MODELS_getitem REVIEWING = Inl KeyError \<and> map_of MODELS REVIEWING = None"
  by (simp add: MODELS_getitem_def MODELS_def)

text \<open>
  C9, amended. For every role in \<open>{PLANNING, CODING, TESTING}\<close>, the registry lookup returns a
  configuration whose role field is the queried role. \<open>REVIEWING\<close> is a member of the role
  enumeration with no entry in the registry; looking it up raises \<^verbatim>\<open>KeyError\<close>.
\<close>

theorem registry_lookup_returns_role:
  "(r \<noteq> REVIEWING \<longrightarrow> (\<exists>c. MODELS_getitem r = Inr c \<and> role c = r))
   \<and> (r = REVIEWING \<longrightarrow> MODELS_getitem r = Inl KeyError)
   \<and> map fst MODELS = [PLANNING, CODING, TESTING]"
  by (cases r) (simp_all add: MODELS_lookup, simp_all add: MODELS_def)

theorem registry_lookup_returns_role_witness:
  "CODING \<noteq> REVIEWING
   \<and> MODELS_getitem CODING
       = Inr \<lparr>name = ''qwen2.5-coder:7b-instruct-q8_0'', role = CODING, temperature = 0.15,
              description = ''Implements code with high quality''\<rparr>
   \<and> MODELS_getitem REVIEWING = Inl KeyError"
  using registry_lookup_returns_role [of CODING] registry_lookup_returns_role [of REVIEWING]
  by (simp add: MODELS_lookup)

end
